theory Spec2Isabelle
  imports Complex_Main "HOL-Library.Word"
begin

unbundle bit_operations_syntax

section \<open>Errors and basic types\<close>

text \<open>
  The pipeline of \<^verbatim>\<open>python_tools/zobov.py\<close> stops with \<^verbatim>\<open>sys.exit\<close> on its sanity checks
  and with the interpreter's own exceptions elsewhere. Every such stop is a value of
  \<open>error\<close>, and a function that can stop returns \<open>error + 'a\<close>.
\<close>

datatype error = SystemExit | TypeError | ValueError | IndexError | ZeroDivisionError

type_synonym 'a result = "error + 'a"

definition bind_result :: "'a result \<Rightarrow> ('a \<Rightarrow> 'b result) \<Rightarrow> 'b result" where
  "bind_result m f = (case m of Inl e \<Rightarrow> Inl e | Inr x \<Rightarrow> f x)"

text \<open>
  A float64 is kept as its 64-bit pattern where the code only stores and reloads it
  (the position file), and as a real number where the code compares and does arithmetic
  (exact arithmetic, no rounding).
\<close>

type_synonym f64 = "64 word"
type_synonym byte = "8 word"

section \<open>Tracer store\<close>

text \<open>
  A two-dimensional numpy array of float64: the number of columns and the rows.
  \<open>self.tracers\<close> holds such an array, or the integer that \<^verbatim>\<open>delete_tracer_info\<close>
  stores in its place.
\<close>

record ndarray =
  ncols :: nat
  rows :: "f64 list list"

definition wf_array :: "ndarray \<Rightarrow> bool" where
  "wf_array a = list_all (\<lambda>r. length r = ncols a) (rows a)"

datatype tracers_val = Table ndarray | IntVal int

record pipeline =
  is_box :: bool
  num_tracers :: nat
  num_part_total :: nat
  tracers :: tracers_val

text \<open>\<^verbatim>\<open>self.tracers[:, j]\<close>: a column of the table; an integer cannot be indexed.\<close>

definition column :: "nat \<Rightarrow> tracers_val \<Rightarrow> f64 list result" where
  "column j t = (case t of
       IntVal _ \<Rightarrow> Inl TypeError
     | Table a \<Rightarrow> if j < ncols a then Inr (map (\<lambda>r. r ! j) (rows a)) else Inl IndexError)"

text \<open>\<^verbatim>\<open>len(self.tracers)\<close>: the number of rows; \<^verbatim>\<open>len\<close> of an integer raises TypeError.\<close>

definition py_len :: "tracers_val \<Rightarrow> nat result" where
  "py_len t = (case t of IntVal _ \<Rightarrow> Inl TypeError | Table a \<Rightarrow> Inr (length (rows a)))"

subsection \<open>Little-endian bytes\<close>

definition le32 :: "32 word \<Rightarrow> byte list" where
  "le32 w = map (\<lambda>i. ucast (drop_bit (8 * i) w)) [0..<4]"

definition le64 :: "f64 \<Rightarrow> byte list" where
  "le64 w = map (\<lambda>i. ucast (drop_bit (8 * i) w)) [0..<8]"

fun from_le :: "byte list \<Rightarrow> 'a::len word" where
  "from_le [] = 0"
| "from_le (b # bs) = ucast b OR push_bit 8 (from_le bs)"

text \<open>\<^verbatim>\<open>array.tofile(F)\<close> of a float64 array: eight bytes per element, in order.\<close>

definition tofile_f64 :: "f64 list \<Rightarrow> byte list" where
  "tofile_f64 xs = concat (map le64 xs)"

text \<open>
  \<^verbatim>\<open>np.fromfile(F, dtype, count=n)\<close>: reads at most \<open>n\<close> whole items, fewer when the
  file ends first, and leaves the file position after the last item read.
\<close>

fun chunks8 :: "nat \<Rightarrow> byte list \<Rightarrow> f64 list" where
  "chunks8 0 bs = []"
| "chunks8 (Suc k) bs = from_le (take 8 bs) # chunks8 k (drop 8 bs)"

definition fromfile_f64 :: "nat \<Rightarrow> byte list \<Rightarrow> f64 list \<times> byte list" where
  "fromfile_f64 n bs = (let k = min n (length bs div 8) in (chunks8 k bs, drop (8 * k) bs))"

definition fromfile_i32_1 :: "byte list \<Rightarrow> 32 word list \<times> byte list" where
  "fromfile_i32_1 bs = (if 4 \<le> length bs then ([from_le (take 4 bs)], drop 4 bs) else ([], bs))"

subsection \<open>write_box_zobov\<close>

text \<open>
  \<^verbatim>\<open>np.array(self.num_part_total, dtype=np.int32)\<close> keeps the low 32 bits of the count.
  Columns 0 to 2 are always written, columns 3 to 5 in survey mode only.
\<close>

definition write_columns :: "nat list \<Rightarrow> tracers_val \<Rightarrow> byte list result" where
  "write_columns js t = foldr (\<lambda>j acc.
       bind_result (column j t) (\<lambda>c. bind_result acc (\<lambda>bs. Inr (tofile_f64 c @ bs)))) js (Inr [])"

definition write_box_zobov :: "pipeline \<Rightarrow> byte list result" where
  "write_box_zobov s =
     bind_result (write_columns (if is_box s then [0, 1, 2] else [0, 1, 2, 3, 4, 5]) (tracers s))
       (\<lambda>bs. Inr (le32 (word_of_nat (num_part_total s)) @ bs))"

subsection \<open>delete_tracer_info and reread_tracer_info\<close>

definition delete_tracer_info :: "pipeline \<Rightarrow> pipeline" where
  "delete_tracer_info s = s\<lparr>tracers := IntVal 0\<rparr>"

text \<open>
  \<^verbatim>\<open>np.empty((self.num_part_total, 6))\<close>: six columns whatever the mode, with contents
  left over from memory, here the function \<open>junk\<close> of row and column.
\<close>

definition np_empty6 :: "(nat \<Rightarrow> nat \<Rightarrow> f64) \<Rightarrow> nat \<Rightarrow> f64 list list" where
  "np_empty6 junk n = map (\<lambda>i. map (junk i) [0..<6]) [0..<n]"

text \<open>
  \<^verbatim>\<open>self.tracers[:, j] = values\<close>: the values must be as many as the rows, or a single
  value that is broadcast to every row; anything else raises ValueError.
\<close>

definition assign_column :: "nat \<Rightarrow> f64 list \<Rightarrow> f64 list list \<Rightarrow> f64 list list result" where
  "assign_column j vs rs =
     (if length vs = length rs then Inr (map2 (\<lambda>r v. r[j := v]) rs vs)
      else if length vs = 1 then Inr (map (\<lambda>r. r[j := hd vs]) rs)
      else Inl ValueError)"

fun read_columns :: "nat list \<Rightarrow> nat \<Rightarrow> byte list \<Rightarrow> f64 list list \<Rightarrow> f64 list list result" where
  "read_columns [] n bs rs = Inr rs"
| "read_columns (j # js) n bs rs =
     (case fromfile_f64 n bs of (vs, rest) \<Rightarrow>
        bind_result (assign_column j vs rs) (read_columns js n rest))"

definition reread_tracer_info ::
    "(nat \<Rightarrow> nat \<Rightarrow> f64) \<Rightarrow> pipeline \<Rightarrow> byte list \<Rightarrow> pipeline result" where
  "reread_tracer_info junk s file =
     (case fromfile_i32_1 file of
        ([], _) \<Rightarrow> Inl IndexError
      | (nparts # _, rest) \<Rightarrow>
          if sint nparts \<noteq> int (num_part_total s) then Inl SystemExit
          else bind_result
                 (read_columns (if is_box s then [0, 1, 2] else [0, 1, 2, 3, 4, 5])
                    (nat (sint nparts)) rest (np_empty6 junk (num_part_total s)))
                 (\<lambda>rs. Inr (s\<lparr>tracers := Table \<lparr>ncols = 6, rows = rs\<rparr>\<rparr>)))"

subsection \<open>The reload check of find_void_circumcentres and postprocess_clusters\<close>

text \<open>
  \<^verbatim>\<open>if not len(self.tracers) == self.num_part_total: self.reread_tracer_info()\<close>
\<close>

definition reload_if_missing ::
    "(nat \<Rightarrow> nat \<Rightarrow> f64) \<Rightarrow> pipeline \<Rightarrow> byte list \<Rightarrow> pipeline result" where
  "reload_if_missing junk s file =
     bind_result (py_len (tracers s))
       (\<lambda>n. if n \<noteq> num_part_total s then reread_tracer_info junk s file else Inr s)"

text \<open>Writing the position file and reading it back, as one step.\<close>

definition roundtrip :: "(nat \<Rightarrow> nat \<Rightarrow> f64) \<Rightarrow> pipeline \<Rightarrow> pipeline result" where
  "roundtrip junk s = bind_result (write_box_zobov s) (reread_tracer_info junk s)"

text \<open>Sample states: leftover memory that is all zero, a box run and a survey run.\<close>

definition junk0 :: "nat \<Rightarrow> nat \<Rightarrow> f64" where
  "junk0 i j = 0"

definition box1 :: pipeline where
  "box1 = \<lparr>is_box = True, num_tracers = 1, num_part_total = 1,
           tracers = Table \<lparr>ncols = 3, rows = [[1, 2, 3]]\<rparr>\<rparr>"

definition survey1 :: pipeline where
  "survey1 = \<lparr>is_box = False, num_tracers = 1, num_part_total = 2,
           tracers = Table \<lparr>ncols = 6, rows = [[1, 2, 3, 4, 5, 6], [7, 8, 9, 10, 11, 12]]\<rparr>\<rparr>"

section \<open>Box mode: periodic wrap\<close>

text \<open>
  Coordinates, volumes and densities are real numbers from here on. The constructor wraps
  a box-mode table in six statements, one per column and direction:
  \<^verbatim>\<open>tracers[tracers[:, c] > box_length, c] -= box_length\<close> for the columns 0, 1, 2, then
  \<^verbatim>\<open>tracers[tracers[:, c] < 0, c] += box_length\<close> for the columns 0, 1, 2. Before that it
  stops when \<^verbatim>\<open>box_length <= 0\<close>.
\<close>

definition sub_if_gt :: "real \<Rightarrow> nat \<Rightarrow> real list \<Rightarrow> real list" where
  "sub_if_gt L c r = (if r ! c > L then r[c := r ! c - L] else r)"

definition add_if_neg :: "real \<Rightarrow> nat \<Rightarrow> real list \<Rightarrow> real list" where
  "add_if_neg L c r = (if r ! c < 0 then r[c := r ! c + L] else r)"

definition sub_where_gt :: "real \<Rightarrow> nat \<Rightarrow> real list list \<Rightarrow> real list list" where
  "sub_where_gt L c rs = map (sub_if_gt L c) rs"

definition add_where_neg :: "real \<Rightarrow> nat \<Rightarrow> real list list \<Rightarrow> real list list" where
  "add_where_neg L c rs = map (add_if_neg L c) rs"

definition wrap_periodic :: "real \<Rightarrow> real list list \<Rightarrow> real list list" where
  "wrap_periodic L rs =
     add_where_neg L 2 (add_where_neg L 1 (add_where_neg L 0
       (sub_where_gt L 2 (sub_where_gt L 1 (sub_where_gt L 0 rs)))))"

definition box_prepare :: "real \<Rightarrow> real list list \<Rightarrow> real list list result" where
  "box_prepare box_length trs =
     (if box_length \<le> 0 then Inl SystemExit else Inr (wrap_periodic box_length trs))"

text \<open>What the six statements do to one coordinate.\<close>

definition wrap_coord :: "real \<Rightarrow> real \<Rightarrow> real" where
  "wrap_coord L x = (if x > L then x - L else if x < 0 then x + L else x)"

text \<open>The spec's postcondition: every coordinate of every row lies in \<open>[0, L)\<close>.\<close>

definition in_half_open_box :: "real \<Rightarrow> real list list \<Rightarrow> bool" where
  "in_half_open_box L rs = list_all (list_all (\<lambda>x. 0 \<le> x \<and> x < L)) rs"

section \<open>Survey mode: volume renormalisation\<close>




section \<open>Buffer synthesis\<close>

text \<open>\<^verbatim>\<open>np.max\<close> and \<^verbatim>\<open>np.min\<close> raise ValueError on an empty array.\<close>

definition np_max :: "real list \<Rightarrow> real result" where
  "np_max xs = (case xs of [] \<Rightarrow> Inl ValueError | x # ys \<Rightarrow> Inr (fold max ys x))"

definition np_min :: "real list \<Rightarrow> real result" where
  "np_min xs = (case xs of [] \<Rightarrow> Inl ValueError | x # ys \<Rightarrow> Inr (fold min ys x))"

text \<open>
  The box side in \<^verbatim>\<open>generate_buffer\<close>, after the cap and boundary buffers are placed and
  before the guards: \<^verbatim>\<open>self.box_length = 2.0 * np.max(np.abs(buffers[:, :3])) + 1.\<close>
  The array \<^verbatim>\<open>buffers\<close> holds the buffer particles only.
\<close>

definition xyz_abs :: "real list list \<Rightarrow> real list" where
  "xyz_abs buffers = map abs (concat (map (take 3) buffers))"

definition buffer_box_length :: "real list list \<Rightarrow> real result" where
  "buffer_box_length buffers =
     bind_result (np_max (xyz_abs buffers)) (\<lambda>m. Inr (2 * m + 1))"

text \<open>
  The box side in the spec's words: the maximum is over all tracers and all buffer
  particles together.
\<close>

definition spec_box_length :: "real list list \<Rightarrow> real list list \<Rightarrow> real result" where
  "spec_box_length trs buffers =
     bind_result (np_max (xyz_abs (trs @ buffers))) (\<lambda>m. Inr (2 * m + 1))"

text \<open>
  A tracer on the x axis at distance 10 and two buffer particles at distance 12, in
  directions off the axes. Rows are x, y, z, RA, Dec, redshift.
\<close>

definition tracer_far :: "real list list" where
  "tracer_far = [[10, 0, 0, 0, 0, 1 / 2]]"

definition buffers_far :: "real list list" where
  "buffers_far = [[8, 8, 4, 45, 19, - 1], [- 8, 4, 8, 153, 42, - 1]]"

subsection \<open>Low-redshift cap\<close>

text \<open>
  Step 2 of \<^verbatim>\<open>generate_buffer\<close>. The comoving distance comes from the cosmology module
  and is a parameter here; \<open>s\<close> is \<^verbatim>\<open>mean_nn_distance\<close>, computed from the tracer
  density at the head of the function, and \<open>eta\<close> is \<^verbatim>\<open>self.mock_dens_ratio\<close>. When the upper radius is negative it is set back to the
  comoving distance of \<open>z_low\<close>; the lower radius is computed before that and set to 0
  when negative. No buffer is placed when \<open>z_low\<close> is not positive.
\<close>

definition mean_nn_distance :: "real \<Rightarrow> real" where
  "mean_nn_distance tracer_dens = tracer_dens powr (- 1 / 3)"

definition low_cap_radii :: "(real \<Rightarrow> real) \<Rightarrow> real \<Rightarrow> real \<Rightarrow> real \<Rightarrow> real \<times> real" where
  "low_cap_radii comoving z_low s eta =
     (let r_high = comoving z_low - s * eta powr (- 1 / 3);
          r_low = r_high - s;
          r_high = (if r_high < 0 then comoving z_low else r_high);
          r_low = (if r_low < 0 then 0 else r_low)
      in (r_low, r_high))"

definition low_cap :: "(real \<Rightarrow> real) \<Rightarrow> real list \<Rightarrow> real \<Rightarrow> real \<Rightarrow> real \<Rightarrow> (real \<times> real) option result" where
  "low_cap comoving zs z_min tracer_dens eta =
     bind_result (np_min zs) (\<lambda>m.
       let z_low = min m z_min in
       if z_low > 0
       then Inr (Some (low_cap_radii comoving z_low (mean_nn_distance tracer_dens) eta))
       else Inr None)"

text \<open>The radii in the spec's words: both are clamped at 0.\<close>

definition spec_low_cap_radii :: "(real \<Rightarrow> real) \<Rightarrow> real \<Rightarrow> real \<Rightarrow> real \<Rightarrow> real \<times> real" where
  "spec_low_cap_radii comoving z_low s eta =
     (let r_hi = comoving z_low - s * eta powr (- 1 / 3);
          r_lo = r_hi - s
      in (max 0 r_lo, max 0 r_hi))"

text \<open>A distance that grows linearly with the redshift, for the examples.\<close>

definition hubble_comoving :: "real \<Rightarrow> real" where
  "hubble_comoving z = 3000 * z"

section \<open>Watershed post-processing\<close>

text \<open>
  \<^verbatim>\<open>postprocess_voids\<close> and the first loop of \<^verbatim>\<open>postprocess_clusters\<close> are the same code
  up to the sense of the density tests; \<open>kind\<close> says which one runs. The loop reads the
  candidate rows of the list file, sorted by core density, and for each row the line of
  the hierarchy file that \<^verbatim>\<open>sorted_order\<close> pairs with it: the model takes the list of
  these pairs in processing order.

  A hierarchy line is split at white space into tokens. A token is what \<^verbatim>\<open>int()\<close> and
  \<^verbatim>\<open>float()\<close> make of it: an integer literal, another number, or neither.
\<close>

datatype token = IntTok int | FloatTok real | BadTok

fun py_int :: "token \<Rightarrow> int result" where
  "py_int (IntTok n) = Inr n"
| "py_int (FloatTok r) = Inl ValueError"
| "py_int BadTok = Inl ValueError"

fun py_float :: "token \<Rightarrow> real result" where
  "py_float (IntTok n) = Inr (of_int n)"
| "py_float (FloatTok r) = Inr r"
| "py_float BadTok = Inl ValueError"

text \<open>
  \<^verbatim>\<open>xs[i]\<close> for \<open>i \<ge> 0\<close>, the slice \<^verbatim>\<open>xs[:k]\<close> for any integer \<open>k\<close>, and
  \<^verbatim>\<open>np.asarray(tokens, dtype=int)\<close>.
\<close>

definition py_index :: "'a list \<Rightarrow> nat \<Rightarrow> 'a result" where
  "py_index xs i = (if i < length xs then Inr (xs ! i) else Inl IndexError)"

definition py_prefix :: "int \<Rightarrow> 'a list \<Rightarrow> 'a list" where
  "py_prefix k xs = (if 0 \<le> k then take (nat k) xs else take (length xs - nat (- k)) xs)"

fun asarray_int :: "token list \<Rightarrow> int list result" where
  "asarray_int [] = Inr []"
| "asarray_int (t # ts) =
     bind_result (py_int t) (\<lambda>n. bind_result (asarray_int ts) (\<lambda>ns. Inr (n # ns)))"

datatype kind = Voids | Clusters

text \<open>
  One row of the list file as the code reads it: \<^verbatim>\<open>vid\<close>, \<^verbatim>\<open>edgelist\<close>, the core
  particle (column 2), the core density (column 3), \<^verbatim>\<open>vollist\<close>, \<^verbatim>\<open>numpartlist\<close> and
  \<^verbatim>\<open>rlist\<close>, each the entry of that array for the row.
\<close>

record candidate =
  vid :: int
  edgelist :: int
  corepart :: int
  coredens :: real
  vollist :: real
  numpartlist :: int
  rlist :: real

text \<open>
  The hard-coded parameters at the head of both functions. Stripping is switched off in
  both and is left out, together with the density average of the member cells: neither
  reaches the acceptance test, the zone list or the edge flag.
\<close>

record policy =
  dont_merge :: bool
  use_r_threshold :: bool
  r_threshold :: real
  use_link_density_threshold :: bool
  link_density_threshold :: real
  count_all :: bool

definition void_policy :: policy where
  "void_policy = \<lparr>dont_merge = True, use_r_threshold = False, r_threshold = 1,
     use_link_density_threshold = False, link_density_threshold = 1, count_all = True\<rparr>"

definition cluster_policy :: policy where
  "cluster_policy = \<lparr>dont_merge = True, use_r_threshold = False, r_threshold = 2,
     use_link_density_threshold = False, link_density_threshold = 1, count_all = True\<rparr>"

definition hard_coded :: "kind \<Rightarrow> policy" where
  "hard_coded k = (case k of Voids \<Rightarrow> void_policy | Clusters \<Rightarrow> cluster_policy)"

text \<open>
  The local variables of the \<^verbatim>\<open>while\<close> loop that adds zones to a seed.
\<close>

record merge_state =
  pos :: nat
  num_zones_to_add :: int
  finalpos :: int
  rval :: real
  rstopadd :: real
  num_adds :: int
  add_more :: bool
  zonelist :: "int list"
  total_vol :: real
  total_num_parts :: int
  zonestoadd :: "int list"

text \<open>
  \<^verbatim>\<open>X[np.in1d(vid, zones)]\<close>: the rows whose zone id is among \<open>zones\<close>.
\<close>

definition in1d_rows :: "candidate list \<Rightarrow> int list \<Rightarrow> candidate list" where
  "in1d_rows cands zones = filter (\<lambda>c. vid c \<in> set zones) cands"

text \<open>
  The condition under which the zones of a merge step are not added:
  \<^verbatim>\<open>dont_merge or (use_link_density_threshold and dens > link_density_threshold) or
  (use_r_threshold and max(rsublist) > r_threshold)\<close>, evaluated left to right;
  \<^verbatim>\<open>max\<close> of an empty list raises. For clusters the density is \<^verbatim>\<open>coredens / rval\<close> and
  the comparison is \<^verbatim>\<open><\<close>.
\<close>

definition link_density :: "kind \<Rightarrow> real \<Rightarrow> real \<Rightarrow> real" where
  "link_density k r cd = (case k of Voids \<Rightarrow> r * cd | Clusters \<Rightarrow> cd / r)"

definition past_link_threshold :: "kind \<Rightarrow> policy \<Rightarrow> real \<Rightarrow> bool" where
  "past_link_threshold k P dens =
     (case k of Voids \<Rightarrow> dens > link_density_threshold P
              | Clusters \<Rightarrow> dens < link_density_threshold P)"

definition stop_adding :: "kind \<Rightarrow> policy \<Rightarrow> real \<Rightarrow> real list \<Rightarrow> bool result" where
  "stop_adding k P dens rsublist =
     (if dont_merge P then Inr True
      else if use_link_density_threshold P \<and> past_link_threshold k P dens then Inr True
      else if use_r_threshold P
           then bind_result (np_max rsublist) (\<lambda>m. Inr (m > r_threshold P))
      else Inr False)"

text \<open>
  One pass through the body of the \<^verbatim>\<open>while\<close> loop.
\<close>

definition merge_step ::
    "kind \<Rightarrow> policy \<Rightarrow> candidate list \<Rightarrow> real \<Rightarrow> token list \<Rightarrow> merge_state \<Rightarrow> merge_state result" where
  "merge_step k P cands cd line s =
     (let n = num_zones_to_add s in
      bind_result (asarray_int (take (nat n) (drop (pos s + 2) line))) (\<lambda>zs.
      bind_result (stop_adding k P (link_density k (rval s) cd) (map rlist (in1d_rows cands zs)))
        (\<lambda>stop.
          let s1 = (if stop
                    then s\<lparr>zonestoadd := zs, rstopadd := rval s, add_more := False,
                            finalpos := finalpos s - (n + 1)\<rparr>
                    else s\<lparr>zonestoadd := zs, zonelist := zonelist s @ zs,
                            num_adds := num_adds s + n,
                            total_vol := total_vol s + sum_list (map vollist (in1d_rows cands zs)),
                            total_num_parts := total_num_parts s
                               + sum_list (map numpartlist (in1d_rows cands zs))\<rparr>);
              p = pos s + nat n + 2
          in bind_result (bind_result (py_index line p) py_int) (\<lambda>n'.
             bind_result (bind_result (py_index line (p + 1)) py_float) (\<lambda>r'.
               Inr (s1\<lparr>pos := p, num_zones_to_add := n', rval := r',
                        finalpos := (if add_more s1 then int p + n' + 1 else finalpos s1)\<rparr>))))))"

text \<open>
  The loop: \<^verbatim>\<open>while num_zones_to_add > 0 and add_more\<close>. Every pass that does not raise
  moves \<open>pos\<close> forward to a token that exists, which bounds the number of passes.
\<close>

function merge_loop ::
    "kind \<Rightarrow> policy \<Rightarrow> candidate list \<Rightarrow> real \<Rightarrow> token list \<Rightarrow> merge_state \<Rightarrow> merge_state result" where
  "merge_loop k P cands cd line s =
     (if num_zones_to_add s > 0 \<and> add_more s
      then (case merge_step k P cands cd line s of
              Inl e \<Rightarrow> Inl e
            | Inr s' \<Rightarrow> merge_loop k P cands cd line s')
      else Inr s)"
  by pat_completeness auto
termination
proof (relation "measure (\<lambda>(k, P, cands, cd, line, s). length line - pos s)")
  show "wf (measure (\<lambda>(k, P, cands, cd, line, s). length line - pos s))" by simp
next
  fix k :: kind and P :: policy and cands :: "candidate list" and cd :: real
    and line :: "token list" and s s' :: merge_state
  assume run: "0 < num_zones_to_add s \<and> add_more s"
    and step: "merge_step k P cands cd line s = Inr s'"
  have "pos s < pos s' \<and> pos s' < length line"
    using step run
    by (auto simp: merge_step_def Let_def bind_result_def py_index_def
        split: sum.splits if_splits)
  then show "((k, P, cands, cd, line, s'), (k, P, cands, cd, line, s))
      \<in> measure (\<lambda>(k, P, cands, cd, line, s). length line - pos s)"
    by (simp add: diff_less_mono2)
qed

declare merge_loop.simps [simp del]

text \<open>
  What one accepted seed writes: a row of the new list file and a line of the new
  hierarchy file, kept here with the zone list and the edge flag of the structure.
\<close>

record list_entry =
  le_id :: int
  le_corepart :: int
  le_coredens :: real
  le_zone_parts :: int
  le_num_zones :: int
  le_num_parts :: int
  le_volume :: real
  le_ratio :: real

record accepted =
  seed :: int
  member_zones :: "int list"
  edge_flag :: int
  new_line :: "token list"
  list_row :: list_entry

text \<open>
  The test on a candidate:
  \<^verbatim>\<open>rval >= 1 and coredens < self.min_dens_cut and numpartlist[i] >= self.void_min_num and
  (count_all_voids or vid[i] not in counted_zones)\<close>, with \<^verbatim>\<open>coredens > self.max_dens_cut\<close>
  for clusters.
\<close>

definition dens_test :: "kind \<Rightarrow> real \<Rightarrow> real \<Rightarrow> bool" where
  "dens_test k cd dcut = (case k of Voids \<Rightarrow> cd < dcut | Clusters \<Rightarrow> cd > dcut)"

definition seed_test ::
    "kind \<Rightarrow> policy \<Rightarrow> real \<Rightarrow> int \<Rightarrow> int list \<Rightarrow> candidate \<Rightarrow> real \<Rightarrow> bool" where
  "seed_test k P dcut min_num counted_zones c r =
     (r \<ge> 1 \<and> dens_test k (coredens c) dcut \<and> numpartlist c \<ge> min_num \<and>
      (count_all P \<or> vid c \<notin> set counted_zones))"

text \<open>
  The statements after the loop for an accepted seed: edge flag, new hierarchy line and
  list row.
\<close>

definition finish_structure ::
    "real \<Rightarrow> candidate list \<Rightarrow> candidate \<Rightarrow> token list \<Rightarrow> merge_state \<Rightarrow> accepted" where
  "finish_structure meanvol_trc cands c line s =
     \<lparr>seed = vid c,
      member_zones = zonelist s,
      edge_flag = (if 1 \<in> set (map edgelist (in1d_rows cands (zonestoadd s))) then 1 else 0),
      new_line = py_prefix (finalpos s) line @ (if add_more s then [] else [IntTok 0])
                   @ [FloatTok (rstopadd s)],
      list_row = \<lparr>le_id = vid c, le_corepart = corepart c, le_coredens = coredens c,
                  le_zone_parts = numpartlist c, le_num_zones = num_adds s + 1,
                  le_num_parts = total_num_parts s, le_volume = total_vol s * meanvol_trc,
                  le_ratio = (if rstopadd s > 10 ^ 20 then - 1 else rstopadd s)\<rparr>\<rparr>"

text \<open>
  The body of the \<^verbatim>\<open>for\<close> loop for one candidate, and the loop itself with
  \<^verbatim>\<open>counted_zones\<close> passed along.
\<close>

definition process_candidate ::
    "kind \<Rightarrow> policy \<Rightarrow> real \<Rightarrow> int \<Rightarrow> real \<Rightarrow> candidate list \<Rightarrow> int list \<Rightarrow> candidate \<Rightarrow> token list
       \<Rightarrow> accepted option result" where
  "process_candidate k P dcut min_num meanvol_trc cands counted_zones c line =
     bind_result (bind_result (py_index line 1) py_int) (\<lambda>n.
     bind_result (bind_result (py_index line 2) py_float) (\<lambda>r.
       if seed_test k P dcut min_num counted_zones c r
       then bind_result
              (merge_loop k P cands (coredens c) line
                 \<lparr>pos = 1, num_zones_to_add = n, finalpos = 1 + n + 1, rval = r,
                  rstopadd = rlist c, num_adds = 0, add_more = True, zonelist = [vid c],
                  total_vol = vollist c, total_num_parts = numpartlist c, zonestoadd = []\<rparr>)
              (\<lambda>s. Inr (Some (finish_structure meanvol_trc cands c line s)))
       else Inr None))"

fun process_all ::
    "kind \<Rightarrow> policy \<Rightarrow> real \<Rightarrow> int \<Rightarrow> real \<Rightarrow> candidate list \<Rightarrow> int list
       \<Rightarrow> (candidate \<times> token list) list \<Rightarrow> accepted list result" where
  "process_all k P dcut min_num meanvol_trc cands counted_zones [] = Inr []"
| "process_all k P dcut min_num meanvol_trc cands counted_zones ((c, line) # rest) =
     bind_result (process_candidate k P dcut min_num meanvol_trc cands counted_zones c line)
       (\<lambda>r. case r of
              None \<Rightarrow> process_all k P dcut min_num meanvol_trc cands counted_zones rest
            | Some st \<Rightarrow>
                bind_result
                  (process_all k P dcut min_num meanvol_trc cands
                     (counted_zones @ member_zones st) rest)
                  (\<lambda>out. Inr (st # out)))"

definition postprocess ::
    "kind \<Rightarrow> real \<Rightarrow> int \<Rightarrow> real \<Rightarrow> (candidate \<times> token list) list \<Rightarrow> accepted list result" where
  "postprocess k dcut min_num meanvol_trc pairs =
     process_all k (hard_coded k) dcut min_num meanvol_trc (map fst pairs) [] pairs"

definition postprocess_voids ::
    "real \<Rightarrow> int \<Rightarrow> real \<Rightarrow> (candidate \<times> token list) list \<Rightarrow> accepted list result" where
  "postprocess_voids min_dens_cut void_min_num meanvol_trc pairs =
     postprocess Voids min_dens_cut void_min_num meanvol_trc pairs"

definition postprocess_clusters ::
    "real \<Rightarrow> int \<Rightarrow> real \<Rightarrow> (candidate \<times> token list) list \<Rightarrow> accepted list result" where
  "postprocess_clusters max_dens_cut cluster_min_num meanvol_trc pairs =
     postprocess Clusters max_dens_cut cluster_min_num meanvol_trc pairs"

text \<open>
  The terms of the claims. The first merge ratio of a line is its third token. A
  candidate qualifies when the ratio is at least 1, the core density is on the right side
  of the cut and the zone has enough particles.
\<close>

definition first_ratio :: "token list \<Rightarrow> real option" where
  "first_ratio line =
     (case bind_result (py_index line 2) py_float of Inl e \<Rightarrow> None | Inr r \<Rightarrow> Some r)"

definition qualifies :: "kind \<Rightarrow> real \<Rightarrow> int \<Rightarrow> candidate \<times> token list \<Rightarrow> bool" where
  "qualifies k dcut min_num p =
     (case first_ratio (snd p) of
        None \<Rightarrow> False
      | Some r1 \<Rightarrow> r1 \<ge> 1 \<and> dens_test k (coredens (fst p)) dcut \<and> numpartlist (fst p) \<ge> min_num)"

text \<open>
  The zones listed in the first merge step of a line, and whether some candidate row with
  a zone id among given zones has edge flag 1.
\<close>

definition first_step_zones :: "token list \<Rightarrow> int list" where
  "first_step_zones line =
     (case bind_result (py_index line 1) py_int of
        Inl e \<Rightarrow> []
      | Inr n \<Rightarrow> if n > 0
                then (case asarray_int (take (nat n) (drop 3 line)) of Inl e \<Rightarrow> [] | Inr zs \<Rightarrow> zs)
                else [])"

definition any_edge :: "candidate list \<Rightarrow> int list \<Rightarrow> int" where
  "any_edge cands zones = (if list_ex (\<lambda>c. vid c \<in> set zones \<and> edgelist c = 1) cands then 1 else 0)"

text \<open>
  The fields of an accepted structure that the properties are about, and their values
  under the no-merge policy.
\<close>

definition summary :: "accepted \<Rightarrow> int \<times> int list \<times> int \<times> int \<times> int" where
  "summary st = (seed st, member_zones st, edge_flag st, le_id (list_row st), le_num_zones (list_row st))"

definition expected :: "candidate list \<Rightarrow> candidate \<times> token list \<Rightarrow> int \<times> int list \<times> int \<times> int \<times> int" where
  "expected cands p =
     (vid (fst p), [vid (fst p)], any_edge cands (first_step_zones (snd p)), vid (fst p), 1)"

text \<open>
  The edge flag in the spec's words: 1 if a candidate row of an absorbed zone, that is of
  a member zone, has edge flag 1.
\<close>

definition spec_edge_flag :: "candidate list \<Rightarrow> accepted \<Rightarrow> int" where
  "spec_edge_flag cands st = any_edge cands (member_zones st)"


definition edge_flags :: "accepted list result \<Rightarrow> int list result" where
  "edge_flags r = map_sum id (map edge_flag) r"

definition spec_edge_flags :: "candidate list \<Rightarrow> accepted list result \<Rightarrow> int list result" where
  "spec_edge_flags cands r = map_sum id (map (spec_edge_flag cands)) r"

text \<open>
  A hierarchy line that the loop reads without raising under the no-merge policy: counts
  and ratios where it looks for them, and integer zone ids in the first merge step.
\<close>

definition is_ok :: "'a result \<Rightarrow> bool" where
  "is_ok r = (case r of Inl e \<Rightarrow> False | Inr x \<Rightarrow> True)"

definition wf_line :: "token list \<Rightarrow> bool" where
  "wf_line line =
     (case bind_result (py_index line 1) py_int of
        Inl e \<Rightarrow> False
      | Inr n \<Rightarrow>
          is_ok (bind_result (py_index line 2) py_float) \<and>
          (n > 0 \<longrightarrow> is_ok (asarray_int (take (nat n) (drop 3 line))) \<and>
                    is_ok (bind_result (py_index line (nat n + 3)) py_int) \<and>
                    is_ok (bind_result (py_index line (nat n + 4)) py_float)))"

text \<open>
  Sample input: three candidates in order of core density. Zone 1 is flagged as an edge
  zone and has no merge step; zone 2 is not flagged and would merge first with zone 3,
  which is flagged; zone 3 has a first ratio below 1. The second sample lists zone 7
  twice.
\<close>

definition ex_c1 :: candidate where
  "ex_c1 = \<lparr>vid = 1, edgelist = 1, corepart = 10, coredens = 1 / 10, vollist = 5,
            numpartlist = 4, rlist = 5 / 2\<rparr>"

definition ex_c2 :: candidate where
  "ex_c2 = \<lparr>vid = 2, edgelist = 0, corepart = 20, coredens = 2 / 10, vollist = 6,
            numpartlist = 3, rlist = 7\<rparr>"

definition ex_c3 :: candidate where
  "ex_c3 = \<lparr>vid = 3, edgelist = 1, corepart = 30, coredens = 3 / 10, vollist = 2,
            numpartlist = 2, rlist = 1 / 2\<rparr>"

definition ex_pairs :: "(candidate \<times> token list) list" where
  "ex_pairs =
     [(ex_c1, [IntTok 1, IntTok 0, FloatTok (5 / 2)]),
      (ex_c2, [IntTok 2, IntTok 1, FloatTok (3 / 2), IntTok 3, IntTok 0, FloatTok 7]),
      (ex_c3, [IntTok 3, IntTok 0, FloatTok (1 / 2)])]"

definition ex_out :: "accepted list" where
  "ex_out =
     [\<lparr>seed = 1, member_zones = [1], edge_flag = 0,
       new_line = [IntTok 1, IntTok 0, FloatTok (5 / 2)],
       list_row = \<lparr>le_id = 1, le_corepart = 10, le_coredens = 1 / 10, le_zone_parts = 4,
                   le_num_zones = 1, le_num_parts = 4, le_volume = 5, le_ratio = 5 / 2\<rparr>\<rparr>,
      \<lparr>seed = 2, member_zones = [2], edge_flag = 1,
       new_line = [IntTok 2, IntTok 0, FloatTok (3 / 2)],
       list_row = \<lparr>le_id = 2, le_corepart = 20, le_coredens = 2 / 10, le_zone_parts = 3,
                   le_num_zones = 1, le_num_parts = 3, le_volume = 6, le_ratio = 3 / 2\<rparr>\<rparr>]"


section \<open>Cluster catalogue\<close>

text \<open>
  \<^verbatim>\<open>np.savetxt(file, X, fmt=...)\<close> with a single format string counts the \<^verbatim>\<open>%\<close>
  characters in it: one specifier is repeated for every column; otherwise the count must
  be the number of columns of \<open>X\<close>, or the call raises and writes nothing. The text that
  is written is left out: on success the model returns the rows.
\<close>

definition count_percent :: "string \<Rightarrow> nat" where
  "count_percent fmt = length (filter (\<lambda>c. c = CHR ''%'') fmt)"

definition np_savetxt :: "string \<Rightarrow> nat \<Rightarrow> real list list \<Rightarrow> real list list result" where
  "np_savetxt fmt ncol X =
     (if count_percent fmt = 1 then Inr X
      else if count_percent fmt \<noteq> ncol then Inl ValueError
      else Inr X)"

text \<open>
  \<^verbatim>\<open>np.zeros((n, m))\<close> and \<^verbatim>\<open>info_output[i] = [...]\<close>: the list must have the width of the
  row, or be a single value.
\<close>

definition np_zeros :: "nat \<Rightarrow> nat \<Rightarrow> real list list" where
  "np_zeros n m = replicate n (replicate m 0)"

definition assign_row :: "nat \<Rightarrow> real list \<Rightarrow> real list list \<Rightarrow> real list list result" where
  "assign_row i vs X =
     (if length X \<le> i then Inl IndexError
      else if length vs = length (X ! i) then Inr (X[i := vs])
      else if length vs = 1 then Inr (X[i := replicate (length (X ! i)) (hd vs)])
      else Inl ValueError)"

text \<open>
  What the last loop of \<^verbatim>\<open>postprocess_clusters\<close> has computed for one cluster when it
  fills the row: the id and the density columns of the list file, the centre in box
  coordinates or on the sky, the radii, the weighted density and the edge flag.
\<close>

record cluster_info =
  cluster_id :: real
  centre :: "real \<times> real \<times> real"
  sky :: "real \<times> real \<times> real"
  eff_rad :: real
  core_dens :: real
  wtd_avg_dens :: real
  dens_ratio :: real
  eff_ang_rad :: real
  edge :: real

text \<open>The row of \<^verbatim>\<open>info_output\<close>: nine entries in box mode, eleven in survey mode.\<close>

definition cluster_row :: "bool \<Rightarrow> cluster_info \<Rightarrow> real list" where
  "cluster_row box c =
     (if box then
        (case centre c of (x, y, z) \<Rightarrow>
          [cluster_id c, x, y, z, eff_rad c, core_dens c, wtd_avg_dens c,
           (wtd_avg_dens c - 1) * eff_rad c powr (16 / 10), dens_ratio c])
      else
        (case sky c of (ra, dec, redshift) \<Rightarrow>
          [cluster_id c, ra, dec, redshift, eff_rad c, core_dens c, wtd_avg_dens c,
           (wtd_avg_dens c - 1) * eff_rad c powr (16 / 10), dens_ratio c, eff_ang_rad c, edge c]))"

text \<open>The format strings of the two \<^verbatim>\<open>np.savetxt\<close> calls that end \<^verbatim>\<open>postprocess_clusters\<close>.\<close>

definition cluster_fmt :: "bool \<Rightarrow> string" where
  "cluster_fmt box =
     (if box then ''%d %0.6f %0.6f %0.6f %0.6f %0.6f %0.6f %0.6f %0.6f %d %d''
      else ''%d %0.6f %0.6f %0.6f %0.6f %0.6f %0.6f %0.6f %0.6f %0.6f %d'')"

definition info_ncol :: "bool \<Rightarrow> nat" where
  "info_ncol box = (if box then 9 else 11)"

fun fill_rows :: "bool \<Rightarrow> nat \<Rightarrow> cluster_info list \<Rightarrow> real list list \<Rightarrow> real list list result" where
  "fill_rows box i [] X = Inr X"
| "fill_rows box i (c # cs) X =
     bind_result (assign_row i (cluster_row box c) X) (fill_rows box (Suc i) cs)"

definition write_cluster_catalogue :: "bool \<Rightarrow> cluster_info list \<Rightarrow> real list list result" where
  "write_cluster_catalogue box cs =
     bind_result (fill_rows box 0 cs (np_zeros (length cs) (info_ncol box)))
       (\<lambda>info_output. np_savetxt (cluster_fmt box) (info_ncol box) info_output)"

section \<open>Properties of the tracer store\<close>

lemma bind_result_simps [simp]:
  "bind_result (Inl e) f = Inl e"
  "bind_result (Inr x) f = f x"
  by (simp_all add: bind_result_def)

subsection \<open>The byte encoding is invertible\<close>

lemma from_le_bit: "bit (from_le bs :: 'a::len word) n \<longleftrightarrow>
   n < LENGTH('a) \<and> n div 8 < length bs \<and> bit (bs ! (n div 8)) (n mod 8)"
proof (induction bs arbitrary: n)
  case Nil then show ?case by simp
next
  case (Cons b bs)
  show ?case
  proof (cases "n < 8")
    case True
    then show ?thesis by (auto simp: bit_simps Cons dest: bit_imp_le_length)
  next
    case False
    then have "n div 8 = Suc ((n - 8) div 8)" "n mod 8 = (n - 8) mod 8"
      by (simp_all add: le_div_geq le_mod_geq)
    with False show ?thesis
      by (auto simp: bit_simps Cons dest: bit_imp_le_length)
  qed
qed

lemma from_le_le64: "from_le (le64 w) = w"
proof (rule bit_word_eqI)
  fix n assume n: "n < LENGTH(64)"
  then have "n div 8 < 8" by simp
  then show "bit (from_le (le64 w) :: 64 word) n = bit w n"
    using n by (simp add: from_le_bit le64_def bit_simps)
qed

lemma from_le_le32: "from_le (le32 w) = w"
proof (rule bit_word_eqI)
  fix n assume n: "n < LENGTH(32)"
  then have "n div 8 < 4" by simp
  then show "bit (from_le (le32 w) :: 32 word) n = bit w n"
    using n by (simp add: from_le_bit le32_def bit_simps)
qed

lemma length_le64: "length (le64 w) = 8" by (simp add: le64_def)
lemma length_le32: "length (le32 w) = 4" by (simp add: le32_def)

lemma length_tofile_f64: "length (tofile_f64 xs) = 8 * length xs"
  by (induction xs) (simp_all add: tofile_f64_def length_le64)

lemma chunks8_tofile: "chunks8 (length xs) (tofile_f64 xs @ rest) = xs"
  by (induction xs) (simp_all add: tofile_f64_def length_le64 from_le_le64)

lemma fromfile_tofile:
  "fromfile_f64 (length xs) (tofile_f64 xs @ rest) = (xs, rest)"
  by (simp add: fromfile_f64_def Let_def length_tofile_f64 chunks8_tofile)

subsection \<open>Reading back what was written\<close>

lemma sint_count: "n < 2 ^ 31 \<Longrightarrow> sint (word_of_nat n :: 32 word) = int n"
  by (simp add: signed_of_nat signed_take_bit_int_eq_self)

lemma fromfile_i32_le32: "fromfile_i32_1 (le32 w @ rest) = ([w], rest)"
  by (simp add: fromfile_i32_1_def length_le32 from_le_le32)

lemma write_columns_Table:
  "\<forall>j\<in>set js. j < ncols a \<Longrightarrow>
   write_columns js (Table a) = Inr (concat (map (\<lambda>j. tofile_f64 (map (\<lambda>r. r ! j) (rows a))) js))"
  by (induction js) (simp_all add: write_columns_def column_def)

lemma map2_map2_same:
  "length xs = length ys \<Longrightarrow> map2 f (map2 g xs ys) ys = map2 (\<lambda>x y. f (g x y) y) xs ys"
  by (induction xs ys rule: list_induct2) simp_all

lemma map2_map_right: "map2 g xs (map h ys) = map2 (\<lambda>x y. g x (h y)) xs ys"
  by (simp add: zip_map2 case_prod_unfold comp_def)

lemma read_columns_written:
  "length rs0 = length rs \<Longrightarrow>
   read_columns js (length rs) (concat (map (\<lambda>j. tofile_f64 (map (\<lambda>r. r ! j) rs)) js) @ rest) rs0
     = Inr (map2 (\<lambda>r0 r. fold (\<lambda>j acc. acc[j := r ! j]) js r0) rs0 rs)"
proof (induction js arbitrary: rs0)
  case Nil
  then show ?case by (simp add: case_prod_unfold)
next
  case (Cons j js)
  let ?col = "map (\<lambda>r. r ! j) rs"
  let ?tail = "concat (map (\<lambda>j. tofile_f64 (map (\<lambda>r. r ! j) rs)) js) @ rest"
  have rd: "fromfile_f64 (length rs) (tofile_f64 ?col @ ?tail) = (?col, ?tail)"
    using fromfile_tofile [of ?col ?tail] by simp
  have asg: "assign_column j ?col rs0 = Inr (map2 (\<lambda>r0 r. r0[j := r ! j]) rs0 rs)"
    using Cons.prems by (simp add: assign_column_def map2_map_right)
  have len: "length (map2 (\<lambda>r0 r. r0[j := r ! j]) rs0 rs) = length rs"
    using Cons.prems by simp
  show ?case
    using Cons.IH [OF len] Cons.prems
    by (simp add: rd asg map2_map2_same)
qed

lemma reread_written:
  assumes "tracers s = Table a" and "length (rows a) = num_part_total s"
    and "num_part_total s < 2 ^ 31"
    and "\<forall>j\<in>set (if is_box s then [0, 1, 2] else [0, 1, 2, 3, 4, 5]). j < ncols a"
  shows "\<exists>file. write_box_zobov s = Inr file \<and>
     reread_tracer_info junk s file = Inr (s\<lparr>tracers := Table \<lparr>ncols = 6,
        rows = map2 (\<lambda>r0 r. fold (\<lambda>j acc. acc[j := r ! j])
                  (if is_box s then [0, 1, 2] else [0, 1, 2, 3, 4, 5]) r0)
               (np_empty6 junk (num_part_total s)) (rows a)\<rparr>\<rparr>)"
proof -
  let ?js = "if is_box s then [0, 1, 2] else [0, 1, 2, 3, 4, 5::nat]"
  let ?body = "concat (map (\<lambda>j. tofile_f64 (map (\<lambda>r. r ! j) (rows a))) ?js)"
  have w: "write_box_zobov s = Inr (le32 (word_of_nat (num_part_total s)) @ ?body)"
    using assms(1,4) write_columns_Table [of ?js a]
    by (simp add: write_box_zobov_def)
  have len0: "length (np_empty6 junk (num_part_total s)) = length (rows a)"
    using assms(2) by (simp add: np_empty6_def)
  have rc: "read_columns ?js (length (rows a)) (?body @ []) (np_empty6 junk (num_part_total s))
     = Inr (map2 (\<lambda>r0 r. fold (\<lambda>j acc. acc[j := r ! j]) ?js r0)
              (np_empty6 junk (num_part_total s)) (rows a))"
    by (rule read_columns_written [OF len0])
  have "reread_tracer_info junk s (le32 (word_of_nat (num_part_total s)) @ ?body) =
     Inr (s\<lparr>tracers := Table \<lparr>ncols = 6,
        rows = map2 (\<lambda>r0 r. fold (\<lambda>j acc. acc[j := r ! j]) ?js r0)
               (np_empty6 junk (num_part_total s)) (rows a)\<rparr>\<rparr>)"
    using rc assms(2,3)
    by (simp add: reread_tracer_info_def fromfile_i32_le32 sint_count)
  with w show ?thesis by blast
qed


lemma fill_all_columns:
  "length r0 = 6 \<Longrightarrow> length r = 6 \<Longrightarrow>
   fold (\<lambda>j acc. acc[j := r ! j]) [0, 1, 2, 3, 4, 5] r0 = r"
  by (rule nth_equalityI) (auto simp: nth_list_update less_Suc_eq numeral_eq_Suc)

lemma fill_three_columns:
  "length r = 3 \<Longrightarrow>
   fold (\<lambda>j acc. acc[j := r ! j]) [0, 1, 2] (map g [0..<6]) = r @ map g [3..<6]"
  by (rule nth_equalityI) (auto simp: nth_list_update nth_append less_Suc_eq numeral_eq_Suc)

lemma map2_np_empty6:
  "length rs = n \<Longrightarrow>
   map2 F (np_empty6 junk n) rs = map (\<lambda>i. F (map (junk i) [0..<6]) (rs ! i)) [0..<n]"
  by (rule nth_equalityI) (simp_all add: np_empty6_def)

text \<open>
  C4 (as amended). Take a table of \<open>num_part_total\<close> rows, fewer than \<open>2 ^ 31\<close>, with
  three columns in box mode and six in survey mode. Writing the position file and reading
  it back succeeds. In survey mode the state that comes back is the state that was
  written: same rows, same six columns, every float64 bit for bit. In box mode the table
  that comes back has the same number of rows but six columns: the first three are the
  written ones bit for bit, the last three are whatever \<^verbatim>\<open>np.empty\<close> left there.
\<close>

theorem position_file_roundtrip:
  assumes "tracers s = Table a" and "wf_array a"
    and "ncols a = (if is_box s then 3 else 6)"
    and "length (rows a) = num_part_total s" and "num_part_total s < 2 ^ 31"
  shows "roundtrip junk s =
     Inr (if is_box s
          then s\<lparr>tracers := Table \<lparr>ncols = 6,
                 rows = map (\<lambda>i. rows a ! i @ map (junk i) [3..<6]) [0..<num_part_total s]\<rparr>\<rparr>
          else s)"
proof -
  have cols: "\<forall>j\<in>set (if is_box s then [0, 1, 2] else [0, 1, 2, 3, 4, 5]). j < ncols a"
    using assms(3) by simp
  obtain fl where w: "write_box_zobov s = Inr fl"
    and r: "reread_tracer_info junk s fl = Inr (s\<lparr>tracers := Table \<lparr>ncols = 6,
        rows = map2 (\<lambda>r0 r. fold (\<lambda>j acc. acc[j := r ! j])
                  (if is_box s then [0, 1, 2] else [0, 1, 2, 3, 4, 5]) r0)
               (np_empty6 junk (num_part_total s)) (rows a)\<rparr>\<rparr>)"
    using reread_written [OF assms(1,4,5) cols] by blast
  have rowlen: "\<And>i. i < num_part_total s \<Longrightarrow> length (rows a ! i) = ncols a"
    using assms(2,4) by (simp add: wf_array_def list_all_length)
  show ?thesis
  proof (cases "is_box s")
    case True
    have "map2 (\<lambda>r0 r. fold (\<lambda>j acc. acc[j := r ! j]) [0, 1, 2] r0)
            (np_empty6 junk (num_part_total s)) (rows a)
          = map (\<lambda>i. rows a ! i @ map (junk i) [3..<6]) [0..<num_part_total s]"
    proof -
      have "map2 (\<lambda>r0 r. fold (\<lambda>j acc. acc[j := r ! j]) [0, 1, 2] r0)
              (np_empty6 junk (num_part_total s)) (rows a)
            = map (\<lambda>i. fold (\<lambda>j acc. acc[j := rows a ! i ! j]) [0, 1, 2] (map (junk i) [0..<6]))
                [0..<num_part_total s]"
        by (rule map2_np_empty6 [OF assms(4)])
      also have "\<dots> = map (\<lambda>i. rows a ! i @ map (junk i) [3..<6]) [0..<num_part_total s]"
      proof (rule map_cong [OF refl])
        fix i assume "i \<in> set [0..<num_part_total s]"
        then have "length (rows a ! i) = 3"
          using rowlen assms(3) True by simp
        then show "fold (\<lambda>j acc. acc[j := rows a ! i ! j]) [0, 1, 2] (map (junk i) [0..<6])
                   = rows a ! i @ map (junk i) [3..<6]"
          by (rule fill_three_columns)
      qed
      finally show ?thesis .
    qed
    with w r True show ?thesis by (simp add: roundtrip_def)
  next
    case False
    have "map2 (\<lambda>r0 r. fold (\<lambda>j acc. acc[j := r ! j]) [0, 1, 2, 3, 4, 5] r0)
            (np_empty6 junk (num_part_total s)) (rows a)
          = map (\<lambda>i. rows a ! i) [0..<num_part_total s]"
    proof -
      have "map2 (\<lambda>r0 r. fold (\<lambda>j acc. acc[j := r ! j]) [0, 1, 2, 3, 4, 5] r0)
              (np_empty6 junk (num_part_total s)) (rows a)
            = map (\<lambda>i. fold (\<lambda>j acc. acc[j := rows a ! i ! j]) [0, 1, 2, 3, 4, 5]
                          (map (junk i) [0..<6])) [0..<num_part_total s]"
        by (rule map2_np_empty6 [OF assms(4)])
      also have "\<dots> = map (\<lambda>i. rows a ! i) [0..<num_part_total s]"
      proof (rule map_cong [OF refl])
        fix i assume "i \<in> set [0..<num_part_total s]"
        then have "length (rows a ! i) = 6"
          using rowlen assms(3) False by simp
        then show "fold (\<lambda>j acc. acc[j := rows a ! i ! j]) [0, 1, 2, 3, 4, 5] (map (junk i) [0..<6])
                   = rows a ! i"
          by (intro fill_all_columns) simp_all
      qed
      finally show ?thesis .
    qed
    also have "\<dots> = rows a"
      using assms(4) map_nth [of "rows a"] by simp
    finally have "map2 (\<lambda>r0 r. fold (\<lambda>j acc. acc[j := r ! j]) [0, 1, 2, 3, 4, 5] r0)
            (np_empty6 junk (num_part_total s)) (rows a) = rows a" .
    moreover have "s\<lparr>tracers := Table \<lparr>ncols = 6, rows = rows a\<rparr>\<rparr> = s"
      using assms(1,3) False by simp
    ultimately show ?thesis using w r False by (simp add: roundtrip_def)
  qed
qed

text \<open>The theorem at a survey table of two rows and at a box table of one row.\<close>

theorem position_file_roundtrip_witness:
  "roundtrip junk0 survey1 = Inr survey1 \<and>
   roundtrip junk0 box1 = Inr (box1\<lparr>tracers := Table \<lparr>ncols = 6, rows = [[1, 2, 3, 0, 0, 0]]\<rparr>\<rparr>)"
  using position_file_roundtrip [of survey1 "\<lparr>ncols = 6, rows = [[1, 2, 3, 4, 5, 6], [7, 8, 9, 10, 11, 12]]\<rparr>" junk0]
    position_file_roundtrip [of box1 "\<lparr>ncols = 3, rows = [[1, 2, 3]]\<rparr>" junk0]
  by (simp add: survey1_def box1_def wf_array_def junk0_def upt_conv_Cons)

text \<open>
  In box mode the round trip does not give the table back: the one-row table of three
  columns returns with six.
\<close>

theorem box_roundtrip_counterexample:
  "roundtrip junk0 box1 \<noteq> Inr box1"
proof -
  have cols: "\<forall>j\<in>set (if is_box box1 then [0, 1, 2] else [0, 1, 2, 3, 4, 5]). j < ncols \<lparr>ncols = 3, rows = [[1, 2, 3]]\<rparr>"
    by (simp add: box1_def)
  obtain fl where w: "write_box_zobov box1 = Inr fl"
    and r: "reread_tracer_info junk0 box1 fl = Inr (box1\<lparr>tracers := Table \<lparr>ncols = 6,
        rows = map2 (\<lambda>r0 r. fold (\<lambda>j acc. acc[j := r ! j])
                  (if is_box box1 then [0, 1, 2] else [0, 1, 2, 3, 4, 5]) r0)
               (np_empty6 junk0 (num_part_total box1)) (rows \<lparr>ncols = 3, rows = [[1, 2, 3]]\<rparr>)\<rparr>\<rparr>)"
    using reread_written [of box1 "\<lparr>ncols = 3, rows = [[1, 2, 3]]\<rparr>" junk0, OF _ _ _ cols]
    by (auto simp: box1_def)
  show ?thesis
    using w r by (simp add: roundtrip_def box1_def)
qed

subsection \<open>Eviction and reload\<close>

text \<open>
  C9. After \<^verbatim>\<open>delete_tracer_info\<close> the table is the integer 0, and the check that
  should reload it takes \<^verbatim>\<open>len\<close> of that integer: the stage stops with TypeError
  instead of reloading the rows, whatever the state and the position file.
\<close>

theorem reload_after_delete_fails:
  "reload_if_missing junk (delete_tracer_info s) file = Inl TypeError"
  by (simp add: reload_if_missing_def delete_tracer_info_def py_len_def)

section \<open>Properties of the periodic wrap\<close>

lemma wrap_row:
  assumes "length r = 3" and "0 < L"
  shows "add_if_neg L 2 (add_if_neg L 1 (add_if_neg L 0
           (sub_if_gt L 2 (sub_if_gt L 1 (sub_if_gt L 0 r))))) = map (wrap_coord L) r"
proof -
  obtain a b c where r: "r = [a, b, c]"
    using assms(1) by (auto simp: length_Suc_conv numeral_3_eq_3)
  show ?thesis
    using assms(2) by (simp add: r wrap_coord_def sub_if_gt_def add_if_neg_def)
qed

lemma wrap_periodic_rows:
  assumes "list_all (\<lambda>r. length r = 3) rs" and "0 < L"
  shows "wrap_periodic L rs = map (map (wrap_coord L)) rs"
proof -
  have "wrap_periodic L rs = map (\<lambda>r. add_if_neg L 2 (add_if_neg L 1 (add_if_neg L 0
           (sub_if_gt L 2 (sub_if_gt L 1 (sub_if_gt L 0 r)))))) rs"
    by (simp add: wrap_periodic_def sub_where_gt_def add_where_neg_def comp_def)
  also have "\<dots> = map (map (wrap_coord L)) rs"
    using assms by (intro map_cong refl wrap_row) (simp_all add: list_all_iff)
  finally show ?thesis .
qed

text \<open>
  C5 (as amended). In box mode with \<open>L > 0\<close>, the wrap subtracts \<open>L\<close> once from every
  coordinate above \<open>L\<close>, adds \<open>L\<close> once to every negative coordinate and leaves every
  coordinate in \<open>[0, L]\<close> as it is. A coordinate that starts in \<open>[-L, 2L]\<close> ends in the
  closed interval \<open>[0, L]\<close>.
\<close>

theorem wrap_periodic_once:
  assumes "list_all (\<lambda>r. length r = 3) trs" and "0 < L"
  shows "box_prepare L trs = Inr (map (map (wrap_coord L)) trs) \<and>
         (\<forall>r \<in> set trs. \<forall>x \<in> set r. - L \<le> x \<and> x \<le> 2 * L \<longrightarrow>
             0 \<le> wrap_coord L x \<and> wrap_coord L x \<le> L)"
  using assms by (auto simp: box_prepare_def wrap_periodic_rows wrap_coord_def)

text \<open>The theorem at one row with a coordinate above the box and one below.\<close>

theorem wrap_periodic_once_witness:
  "box_prepare 10 [[12, -3, 5]] = Inr [[2, 7, 5]]"
  using wrap_periodic_once [of "[[12, -3, 5]]" 10] by (simp add: wrap_coord_def)

text \<open>
  With \<open>L = 10\<close>: the coordinate 10 stays 10, 25 becomes 15 and -15 becomes -5; none of
  the three lies in \<open>[0, 10)\<close>.
\<close>

theorem wrap_periodic_counterexample:
  "box_prepare 10 [[10, 25, -15]] = Inr [[10, 15, -5]] \<and> \<not> in_half_open_box 10 [[10, 15, -5]]"
  by (simp add: box_prepare_def wrap_periodic_def sub_where_gt_def add_where_neg_def
      sub_if_gt_def add_if_neg_def in_half_open_box_def)

section \<open>Properties of the volume renormalisation\<close>




section \<open>Properties of the buffer synthesis\<close>

lemma np_max_Max: "xs \<noteq> [] \<Longrightarrow> np_max xs = Inr (Max (set xs))"
proof (cases xs)
  case (Cons x ys)
  then show ?thesis using Max.set_eq_fold [of x ys] by (simp add: np_max_def)
qed simp

lemma np_min_Min: "xs \<noteq> [] \<Longrightarrow> np_min xs = Inr (Min (set xs))"
proof (cases xs)
  case (Cons x ys)
  then show ?thesis using Min.set_eq_fold [of x ys] by (simp add: np_min_def)
qed simp

text \<open>
  C7 (as amended). The box side is \<open>2 * m + 1\<close> where \<open>m\<close> is the largest absolute
  coordinate of the cap and boundary buffer particles; the tracers are not consulted. So
  the side is at least \<open>2 * |c| + 1\<close> for every coordinate \<open>c\<close> of every such buffer
  particle.
\<close>

theorem box_length_from_buffers:
  assumes "buffer_box_length buffers = Inr L"
  shows "L = 2 * Max (set (xyz_abs buffers)) + 1 \<and>
         (\<forall>b \<in> set buffers. \<forall>c \<in> set (take 3 b). 2 * \<bar>c\<bar> + 1 \<le> L)"
proof -
  have ne: "xyz_abs buffers \<noteq> []"
    using assms by (auto simp: buffer_box_length_def np_max_def)
  then have L: "L = 2 * Max (set (xyz_abs buffers)) + 1"
    using assms by (auto simp: buffer_box_length_def np_max_Max)
  have "\<bar>c\<bar> \<le> Max (set (xyz_abs buffers))" if "b \<in> set buffers" "c \<in> set (take 3 b)" for b c
  proof (rule Max_ge)
    show "finite (set (xyz_abs buffers))" by simp
    show "\<bar>c\<bar> \<in> set (xyz_abs buffers)" using that by (auto simp: xyz_abs_def)
  qed
  with L show ?thesis by fastforce
qed

text \<open>The theorem at two buffer particles whose largest coordinate is 8.\<close>

theorem box_length_from_buffers_witness:
  "buffer_box_length buffers_far = Inr 17"
  using box_length_from_buffers [of buffers_far 17]
  by (simp add: buffer_box_length_def np_max_def xyz_abs_def buffers_far_def)

text \<open>
  The tracer at x = 10 lies farther out along its axis than any buffer coordinate: the
  code's side is 17, the side over tracers and buffers together would be 21.
\<close>

theorem box_length_counterexample:
  "buffer_box_length buffers_far = Inr 17 \<and>
   spec_box_length tracer_far buffers_far = Inr 21"
  by (simp add: buffer_box_length_def spec_box_length_def np_max_def xyz_abs_def
      buffers_far_def tracer_far_def)

lemma thousandth_powr: "(1 / 1000 :: real) powr - (1 / 3) = 10"
proof -
  have e: "(1 / 1000 :: real) = 10 powr (- 3)"
    by (simp add: powr_minus_divide)
  have "(10 powr (- 3)) powr - (1 / 3) = (10::real) powr 1"
    by (simp only: powr_powr) simp
  then show ?thesis by (simp only: e) simp
qed

lemma eight_powr: "(8::real) powr - (1 / 3) = 1 / 2"
proof -
  have "(8::real) = 2 powr 3" by simp
  then have "(8::real) powr - (1 / 3) = (2 powr 3) powr - (1 / 3)" by simp
  also have "\<dots> = 2 powr (- 1)" by (simp only: powr_powr) simp
  also have "\<dots> = 1 / 2" by (simp add: powr_minus_divide)
  finally show ?thesis .
qed

text \<open>
  C8 (as amended). When \<open>z_low = min(tracer z, z_min) > 0\<close>, with
  \<open>h = comoving(z_low) - s * eta^(-1/3)\<close> and \<open>s\<close> the mean spacing of the tracers: the
  upper radius is \<open>h\<close>, or
  \<open>comoving(z_low)\<close> when \<open>h\<close> is negative (not 0); the lower radius is \<open>h - s\<close>
  computed from the unadjusted \<open>h\<close>, or 0 when that is negative. The lower radius is
  never negative, and the upper one is not negative when \<open>comoving(z_low)\<close> is not.
\<close>

theorem low_cap_radii_clamp:
  assumes "low_cap comoving zs z_min tracer_dens eta = Inr (Some (r_lo, r_hi))"
  shows "0 < min (Min (set zs)) z_min \<and>
     (let d = comoving (min (Min (set zs)) z_min); s = mean_nn_distance tracer_dens;
          h = d - s * eta powr (- 1 / 3) in
        r_hi = (if h < 0 then d else h) \<and> r_lo = max 0 (h - s) \<and>
        0 \<le> r_lo \<and> (0 \<le> d \<longrightarrow> 0 \<le> r_hi))"
proof -
  have ne: "zs \<noteq> []" using assms by (auto simp: low_cap_def np_min_def)
  show ?thesis
    using assms
    by (auto simp: low_cap_def np_min_Min [OF ne] Let_def low_cap_radii_def max_def
        split: if_splits)
qed

text \<open>
  The theorem at \<open>z_low = 0.001\<close>, distance 3, tracer density 0.001 (spacing 10) and
  density ratio 8.
\<close>

theorem low_cap_radii_clamp_witness:
  "low_cap hubble_comoving [1 / 2, 1 / 1000] (43 / 100) (1 / 1000) 8 = Inr (Some (0, 3))"
  using low_cap_radii_clamp [of hubble_comoving "[1 / 2, 1 / 1000]" "43 / 100" "1 / 1000" 8 0 3]
  by (simp add: low_cap_def np_min_def low_cap_radii_def hubble_comoving_def
      mean_nn_distance_def eight_powr thousandth_powr)

text \<open>
  At the same input the upper radius is 3, the comoving distance of \<open>z_low\<close>, where
  clamping at 0 gives 0.
\<close>

theorem low_cap_counterexample:
  "low_cap_radii hubble_comoving (1 / 1000) (mean_nn_distance (1 / 1000)) 8 = (0, 3) \<and>
   spec_low_cap_radii hubble_comoving (1 / 1000) (mean_nn_distance (1 / 1000)) 8 = (0, 0)"
  by (simp add: low_cap_radii_def spec_low_cap_radii_def hubble_comoving_def
      mean_nn_distance_def eight_powr thousandth_powr)

section \<open>Properties of the post-processing\<close>

lemma hard_coded_flags: "dont_merge (hard_coded k)" "count_all (hard_coded k)"
  by (cases k; simp add: hard_coded_def void_policy_def cluster_policy_def)+

lemma merge_loop_stopped:
  "\<not> add_more s \<Longrightarrow> merge_loop k P cands cd line s = Inr s"
  by (subst merge_loop.simps) simp

lemma merge_loop_idle:
  "\<not> 0 < num_zones_to_add s \<Longrightarrow> merge_loop k P cands cd line s = Inr s"
  by (subst merge_loop.simps) simp

lemma merge_loop_unfold:
  "0 < num_zones_to_add s \<Longrightarrow> add_more s \<Longrightarrow>
   merge_loop k P cands cd line s =
     bind_result (merge_step k P cands cd line s) (merge_loop k P cands cd line)"
  by (subst merge_loop.simps) (simp add: bind_result_def)

lemma merge_step_no_merge:
  assumes "dont_merge P" and "merge_step k P cands cd line s = Inr s'"
  shows "\<not> add_more s' \<and> zonelist s' = zonelist s \<and> num_adds s' = num_adds s \<and>
      total_vol s' = total_vol s \<and> total_num_parts s' = total_num_parts s \<and>
      rstopadd s' = rval s \<and>
      asarray_int (take (nat (num_zones_to_add s)) (drop (pos s + 2) line)) = Inr (zonestoadd s')"
  using assms
  by (auto simp: merge_step_def Let_def bind_result_def stop_adding_def
      split: sum.splits)

lemma merge_loop_no_merge:
  assumes "dont_merge P" and "merge_loop k P cands cd line s = Inr t" and "add_more s"
  shows "zonelist t = zonelist s \<and> num_adds t = num_adds s \<and>
     (if num_zones_to_add s > 0
      then asarray_int (take (nat (num_zones_to_add s)) (drop (pos s + 2) line)) = Inr (zonestoadd t)
           \<and> rstopadd t = rval s \<and> \<not> add_more t
      else t = s)"
proof (cases "num_zones_to_add s > 0")
  case False
  then show ?thesis using assms(2) by (simp add: merge_loop_idle)
next
  case True
  from assms(2) have "bind_result (merge_step k P cands cd line s) (merge_loop k P cands cd line) = Inr t"
    by (simp add: merge_loop_unfold [OF True assms(3)])
  then obtain s' where step: "merge_step k P cands cd line s = Inr s'"
    and rest: "merge_loop k P cands cd line s' = Inr t"
    by (cases "merge_step k P cands cd line s") simp_all
  note s' = merge_step_no_merge [OF assms(1) step]
  then have "t = s'" using rest by (simp add: merge_loop_stopped)
  with s' True show ?thesis by simp
qed

lemma edge_test_any_edge:
  "(if 1 \<in> set (map edgelist (in1d_rows cands zs)) then 1 else 0) = any_edge cands zs"
  by (auto simp: any_edge_def in1d_rows_def list_ex_iff)

lemma seed_test_qualifies:
  "count_all P \<Longrightarrow> bind_result (py_index line 2) py_float = Inr r \<Longrightarrow>
   seed_test k P dcut min_num counted c r = qualifies k dcut min_num (c, line)"
  by (simp add: seed_test_def qualifies_def first_ratio_def)

lemma process_candidate_no_merge:
  assumes P: "dont_merge P" "count_all P"
    and run: "process_candidate k P dcut min_num mv cands counted c line = Inr res"
  shows "if qualifies k dcut min_num (c, line)
         then \<exists>st. res = Some st \<and> seed st = vid c \<and> member_zones st = [vid c] \<and>
                le_id (list_row st) = vid c \<and> le_num_zones (list_row st) = 1 \<and>
                edge_flag st = any_edge cands (first_step_zones line)
         else res = None"
proof -
  from run obtain n where n: "bind_result (py_index line 1) py_int = Inr n"
    by (cases "bind_result (py_index line 1) py_int") (simp_all add: process_candidate_def)
  from run n obtain r where r: "bind_result (py_index line 2) py_float = Inr r"
    by (cases "bind_result (py_index line 2) py_float") (simp_all add: process_candidate_def)
  note q = seed_test_qualifies [OF P(2) r, of k dcut min_num counted c]
  show ?thesis
  proof (cases "qualifies k dcut min_num (c, line)")
    case False
    then show ?thesis using run n r q by (simp add: process_candidate_def)
  next
    case True
    let ?s0 = "\<lparr>pos = 1, num_zones_to_add = n, finalpos = 1 + n + 1, rval = r,
                  rstopadd = rlist c, num_adds = 0, add_more = True, zonelist = [vid c],
                  total_vol = vollist c, total_num_parts = numpartlist c, zonestoadd = []\<rparr>"
    from run n r q True obtain t where t: "merge_loop k P cands (coredens c) line ?s0 = Inr t"
      and res: "res = Some (finish_structure mv cands c line t)"
      by (cases "merge_loop k P cands (coredens c) line ?s0")
         (auto simp: process_candidate_def)
    have loop: "zonelist t = [vid c] \<and> num_adds t = 0 \<and>
       (if n > 0 then asarray_int (take (nat n) (drop 3 line)) = Inr (zonestoadd t)
        else zonestoadd t = [])"
      using merge_loop_no_merge [OF P(1) t] by (auto simp: numeral_3_eq_3 split: if_splits)
    have "zonestoadd t = first_step_zones line"
      using loop n by (auto simp: first_step_zones_def split: if_splits)
    with loop res True show ?thesis
      using edge_test_any_edge [of cands "first_step_zones line"]
      by (simp add: finish_structure_def)
  qed
qed

lemma process_all_no_merge:
  assumes "dont_merge P" and "count_all P"
    and "process_all k P dcut min_num mv cands counted pairs = Inr out"
  shows "map summary out = map (expected cands) (filter (qualifies k dcut min_num) pairs)"
  using assms(3)
proof (induction pairs arbitrary: counted out)
  case Nil
  then show ?case by simp
next
  case (Cons p pairs)
  obtain c line where p: "p = (c, line)" by (cases p)
  from Cons.prems obtain res where
    res: "process_candidate k P dcut min_num mv cands counted c line = Inr res"
    by (cases "process_candidate k P dcut min_num mv cands counted c line") (simp_all add: p)
  note pc = process_candidate_no_merge [OF assms(1,2) res]
  show ?case
  proof (cases "qualifies k dcut min_num (c, line)")
    case False
    with pc have "res = None" by simp
    with Cons.prems res have "process_all k P dcut min_num mv cands counted pairs = Inr out"
      by (simp add: p)
    from Cons.IH [OF this] False show ?thesis by (simp add: p)
  next
    case True
    with pc obtain st where st: "res = Some st" "summary st = expected cands (c, line)"
      by (auto simp: summary_def expected_def)
    with Cons.prems res obtain out' where
      out': "process_all k P dcut min_num mv cands (counted @ member_zones st) pairs = Inr out'"
      and out: "out = st # out'"
      by (cases "process_all k P dcut min_num mv cands (counted @ member_zones st) pairs")
         (auto simp: p)
    from Cons.IH [OF out'] st True out show ?thesis by (simp add: p)
  qed
qed

lemma postprocess_summary:
  assumes "postprocess k dcut min_num mv pairs = Inr out"
  shows "map summary out = map (expected (map fst pairs)) (filter (qualifies k dcut min_num) pairs)"
  using assms process_all_no_merge [OF hard_coded_flags]
  by (simp add: postprocess_def)

lemma summary_zones:
  assumes "map summary out = map (expected cands) ps"
  shows "map member_zones out = map (\<lambda>p. [vid (fst p)]) ps \<and> map seed out = map (vid \<circ> fst) ps \<and>
         map edge_flag out = map (\<lambda>p. any_edge cands (first_step_zones (snd p))) ps"
proof -
  have "map member_zones out = map (\<lambda>x. fst (snd x)) (map summary out)"
    by (simp add: summary_def comp_def)
  moreover have "map seed out = map fst (map summary out)"
    by (simp add: summary_def comp_def)
  moreover have "map edge_flag out = map (\<lambda>x. fst (snd (snd x))) (map summary out)"
    by (simp add: summary_def comp_def)
  ultimately show ?thesis
    by (simp add: assms expected_def comp_def)
qed

subsection \<open>The loop returns on well-formed lines\<close>

lemma is_ok_Inr: "is_ok r \<Longrightarrow> \<exists>x. r = Inr x"
  by (cases r) (simp_all add: is_ok_def)

lemma process_candidate_returns:
  assumes "dont_merge P" and "wf_line line"
  shows "is_ok (process_candidate k P dcut min_num mv cands counted c line)"
proof -
  from assms(2) obtain n where n: "bind_result (py_index line 1) py_int = Inr n"
    by (cases "bind_result (py_index line 1) py_int") (simp_all add: wf_line_def)
  have "is_ok (bind_result (py_index line 2) py_float)"
    using assms(2) n by (simp add: wf_line_def)
  then obtain r where r: "bind_result (py_index line 2) py_float = Inr r"
    using is_ok_Inr by blast
  let ?s0 = "\<lparr>pos = 1, num_zones_to_add = n, finalpos = 1 + n + 1, rval = r,
                rstopadd = rlist c, num_adds = 0, add_more = True, zonelist = [vid c],
                total_vol = vollist c, total_num_parts = numpartlist c, zonestoadd = []\<rparr>"
  have "is_ok (merge_loop k P cands (coredens c) line ?s0)"
  proof (cases "0 < n")
    case False
    then show ?thesis by (simp add: merge_loop_idle is_ok_def)
  next
    case True
    have ok: "is_ok (asarray_int (take (nat n) (drop 3 line)))"
      "is_ok (bind_result (py_index line (nat n + 3)) py_int)"
      "is_ok (bind_result (py_index line (nat n + 4)) py_float)"
      using assms(2) n True by (simp_all add: wf_line_def)
    obtain zs where zs: "asarray_int (take (nat n) (drop 3 line)) = Inr zs"
      using is_ok_Inr [OF ok(1)] by blast
    obtain n' where n': "bind_result (py_index line (nat n + 3)) py_int = Inr n'"
      using is_ok_Inr [OF ok(2)] by blast
    obtain r' where r': "bind_result (py_index line (nat n + 4)) py_float = Inr r'"
      using is_ok_Inr [OF ok(3)] by blast
    have e3: "nat n + 3 = Suc (Suc (Suc (nat n)))" and e4: "nat n + 4 = Suc (Suc (Suc (Suc (nat n))))"
      by simp_all
    have "merge_step k P cands (coredens c) line ?s0 =
        Inr (?s0\<lparr>zonestoadd := zs, rstopadd := r, add_more := False,
                  finalpos := 1 + n + 1 - (n + 1), pos := nat n + 3,
                  num_zones_to_add := n', rval := r'\<rparr>)"
      using assms(1) zs n' [unfolded e3] r' [unfolded e4]
      by (simp add: merge_step_def Let_def stop_adding_def numeral_3_eq_3)
    then have "\<exists>s'. merge_step k P cands (coredens c) line ?s0 = Inr s' \<and> \<not> add_more s'"
      by simp
    then obtain s' where "merge_step k P cands (coredens c) line ?s0 = Inr s'" "\<not> add_more s'"
      by blast
    then show ?thesis
      using True by (simp add: merge_loop_unfold merge_loop_stopped is_ok_def)
  qed
  then obtain t where "merge_loop k P cands (coredens c) line ?s0 = Inr t"
    using is_ok_Inr by blast
  then show ?thesis
    using n r by (simp add: process_candidate_def is_ok_def)
qed

lemma process_all_returns:
  assumes "dont_merge P" and "list_all (\<lambda>p. wf_line (snd p)) pairs"
  shows "is_ok (process_all k P dcut min_num mv cands counted pairs)"
  using assms(2)
proof (induction pairs arbitrary: counted)
  case Nil
  then show ?case by (simp add: is_ok_def)
next
  case (Cons p pairs)
  obtain c line where p: "p = (c, line)" by (cases p)
  from Cons.prems have wf: "wf_line line" and rest: "list_all (\<lambda>p. wf_line (snd p)) pairs"
    by (simp_all add: p)
  obtain res where res: "process_candidate k P dcut min_num mv cands counted c line = Inr res"
    using process_candidate_returns [OF assms(1) wf] is_ok_Inr by blast
  show ?case
  proof (cases res)
    case None
    then show ?thesis using res Cons.IH [OF rest] by (simp add: p)
  next
    case (Some st)
    obtain out where "process_all k P dcut min_num mv cands (counted @ member_zones st) pairs = Inr out"
      using Cons.IH [OF rest] is_ok_Inr by blast
    then show ?thesis using res Some by (simp add: p is_ok_def)
  qed
qed

lemma postprocess_returns:
  "list_all (\<lambda>p. wf_line (snd p)) pairs \<Longrightarrow> is_ok (postprocess k dcut min_num mv pairs)"
  using process_all_returns [OF hard_coded_flags(1)] by (simp add: postprocess_def)

subsection \<open>Sample runs\<close>

lemmas run_simps =
  postprocess_voids_def postprocess_def hard_coded_def void_policy_def cluster_policy_def
  process_candidate_def py_index_def seed_test_def dens_test_def finish_structure_def
  merge_loop_idle merge_loop_stopped merge_loop_unfold merge_step_def Let_def stop_adding_def
  link_density_def in1d_rows_def py_prefix_def

lemma ex_run: "postprocess_voids 1 1 1 ex_pairs = Inr ex_out"
  by (simp add: run_simps ex_pairs_def ex_c1_def ex_c2_def ex_c3_def ex_out_def)

subsection \<open>Seeds, zones and edge flags\<close>






text \<open>
  C3 (as amended). For every accepted void (\<open>k = Voids\<close>) and cluster (\<open>k = Clusters\<close>)
  the edge flag written by the loop is 1 if some candidate row whose zone id is listed in
  the first merge step of the seed's hierarchy line has edge flag 1, and 0 otherwise.
  These are the zones the loop looked at last and did not add; the seed's own row is not
  consulted.
\<close>

theorem edge_flag_first_step:
  assumes "postprocess k dcut min_num mv pairs = Inr out"
  shows "map edge_flag out
     = map (\<lambda>p. any_edge (map fst pairs) (first_step_zones (snd p)))
         (filter (qualifies k dcut min_num) pairs)"
  using summary_zones [OF postprocess_summary [OF assms]] by simp

text \<open>
  The theorem at the sample input.
\<close>

theorem edge_flag_first_step_witness:
  "map edge_flag ex_out = [0, 1] \<and>
   map (\<lambda>p. any_edge (map fst ex_pairs) (first_step_zones (snd p)))
     (filter (qualifies Voids 1 1) ex_pairs) = [0, 1]"
  using edge_flag_first_step [of Voids 1 1 1 ex_pairs ex_out] ex_run
  by (simp add: postprocess_voids_def ex_out_def)

text \<open>
  At the sample input the flags are 0 for zone 1, whose own row is flagged, and 1 for
  zone 2, whose own row is not: the opposite of the flags over the member zones.
\<close>

theorem edge_flag_counterexample:
  "edge_flags (postprocess_voids 1 1 1 ex_pairs) = Inr [0, 1] \<and>
   spec_edge_flags (map fst ex_pairs) (postprocess_voids 1 1 1 ex_pairs) = Inr [1, 0]"
  unfolding ex_run
  by (simp add: edge_flags_def spec_edge_flags_def spec_edge_flag_def any_edge_def
      ex_out_def ex_pairs_def ex_c1_def ex_c2_def ex_c3_def)

section \<open>Properties of the cluster catalogue\<close>


lemma count_survey: "count_percent (cluster_fmt False) = 11"
  by (simp add: cluster_fmt_def count_percent_def)

lemma length_cluster_row: "length (cluster_row box c) = info_ncol box"
  by (simp add: cluster_row_def info_ncol_def split: prod.splits)

lemma fill_rows_ok:
  "i + length cs \<le> length X \<Longrightarrow> list_all (\<lambda>r. length r = info_ncol box) X \<Longrightarrow>
   fill_rows box i cs X = Inr (take i X @ map (cluster_row box) cs @ drop (i + length cs) X)"
proof (induction cs arbitrary: i X)
  case Nil then show ?case by simp
next
  case (Cons c cs)
  have i: "i < length X" using Cons.prems(1) by simp
  then have li: "length (X ! i) = info_ncol box"
    using Cons.prems(2) by (simp add: list_all_length)
  have a: "assign_row i (cluster_row box c) X = Inr (X[i := cluster_row box c])"
    using i li by (simp add: assign_row_def length_cluster_row)
  have all: "list_all (\<lambda>r. length r = info_ncol box) (X[i := cluster_row box c])"
    using Cons.prems(2) i
    by (auto simp: list_all_length nth_list_update length_cluster_row)
  have "fill_rows box (Suc i) cs (X[i := cluster_row box c])
     = Inr (take (Suc i) (X[i := cluster_row box c]) @ map (cluster_row box) cs @
            drop (Suc i + length cs) (X[i := cluster_row box c]))"
    using Cons.prems(1) by (intro Cons.IH all) simp
  then show ?case
    using a i by (simp add: take_Suc_conv_app_nth)
qed

lemma fill_all_rows:
  "fill_rows box 0 cs (np_zeros (length cs) (info_ncol box)) = Inr (map (cluster_row box) cs)"
  using fill_rows_ok [of 0 cs "np_zeros (length cs) (info_ncol box)" box]
  by (simp add: np_zeros_def list_all_length)


text \<open>The survey-mode call has eleven columns for its eleven specifiers and goes through.\<close>

lemma survey_cluster_catalogue_ok:
  "write_cluster_catalogue False cs = Inr (map (cluster_row False) cs)"
  using fill_all_rows [of False cs]
  by (simp add: write_cluster_catalogue_def np_savetxt_def count_survey info_ncol_def)

end
